theory Spec2Isabelle
  imports Main "HOL-Library.Word"
begin

section \<open>JavaScript values\<close>

text \<open>
  The values the client handles. A Number is modelled at the integral values (and NaN),
  which is all the settings check and the timestamps need; an object is a reference:
  the client itself, or a conversation held in the store of conversation objects.
\<close>

type_synonym byte = "8 word"

type_synonym int64 = "64 word"

datatype obj_ref = ClientRef | ConvRef nat

datatype js_value =
    JUndefined
  | JNull
  | JBool bool
  | JNum int
  | JNaN
  | JBigInt int
  | JStr string
  | JObj obj_ref
  | JArr "js_value list"

fun typeof :: "js_value \<Rightarrow> string" where
  "typeof JUndefined = ''undefined''"
| "typeof JNull = ''object''"
| "typeof (JBool b) = ''boolean''"
| "typeof (JNum n) = ''number''"
| "typeof JNaN = ''number''"
| "typeof (JBigInt n) = ''bigint''"
| "typeof (JStr s) = ''string''"
| "typeof (JObj r) = ''object''"
| "typeof (JArr vs) = ''object''"

text \<open>Truthiness, as \<open>||\<close> and \<open>!\<close> test it.\<close>

fun truthy :: "js_value \<Rightarrow> bool" where
  "truthy JUndefined = False"
| "truthy JNull = False"
| "truthy (JBool b) = b"
| "truthy (JNum n) = (n \<noteq> 0)"
| "truthy JNaN = False"
| "truthy (JBigInt n) = (n \<noteq> 0)"
| "truthy (JStr s) = (s \<noteq> [])"
| "truthy (JObj r) = True"
| "truthy (JArr vs) = True"

text \<open>\<open>a || b\<close>\<close>

definition js_or :: "js_value \<Rightarrow> js_value \<Rightarrow> js_value" where
  "js_or a b = (if truthy a then a else b)"

text \<open>\<open>v == null\<close>: true of null and of undefined only.\<close>

fun eq_null :: "js_value \<Rightarrow> bool" where
  "eq_null JUndefined = True"
| "eq_null JNull = True"
| "eq_null v = False"

subsection \<open>Strings\<close>

text \<open>\<open>s.startsWith(p)\<close> and \<open>s.includes(p)\<close>.\<close>

fun startsWith :: "string \<Rightarrow> string \<Rightarrow> bool" where
  "startsWith s [] = True"
| "startsWith [] (p # ps) = False"
| "startsWith (c # cs) (p # ps) = (c = p \<and> startsWith cs ps)"

fun includes_str :: "string \<Rightarrow> string \<Rightarrow> bool" where
  "includes_str [] p = (p = [])"
| "includes_str (c # cs) p = (startsWith (c # cs) p \<or> includes_str cs p)"

subsection \<open>\<open>Number(bigint)\<close>\<close>

text \<open>
  The D-Bus library hands a 64-bit integer over as a BigInt. \<open>Number\<close> of a BigInt is
  the double nearest to it, ties to the even mantissa: exact below \<open>2 ^ 53\<close>, and above
  it a multiple of \<open>2 ^ e\<close> where \<open>e\<close> is the number of bits beyond the 53 of the mantissa.
  For a 64-bit input the result is always an integer.
\<close>

fun bit_length :: "nat \<Rightarrow> nat" where
  "bit_length n = (if n = 0 then 0 else Suc (bit_length (n div 2)))"

declare bit_length.simps [simp del]

definition round_to_double :: "nat \<Rightarrow> nat" where
  "round_to_double m =
     (if m < 2 ^ 53 then m
      else
        let e = bit_length m - 53;
            q = m div 2 ^ e;
            r = m mod 2 ^ e;
            half = 2 ^ (e - 1)
        in if r < half \<or> (r = half \<and> even q) then q * 2 ^ e else (q + 1) * 2 ^ e)"

definition Number_of_BigInt :: "int64 \<Rightarrow> int" where
  "Number_of_BigInt w =
     (let n = sint w
      in if n < 0 then - int (round_to_double (nat (- n))) else int (round_to_double (nat n)))"

subsection \<open>\<open>Buffer.toString("base64")\<close>\<close>

text \<open>
  The standard alphabet with padding: three bytes give four characters, and a last group
  of one or two bytes is padded with \<open>=\<close>.
\<close>

definition base64_alphabet :: string where
  "base64_alphabet = ''ABCDEFGHIJKLMNOPQRSTUVWXYZabcdefghijklmnopqrstuvwxyz0123456789+/''"

definition base64_char :: "nat \<Rightarrow> char" where
  "base64_char n = base64_alphabet ! (n mod 64)"

fun base64 :: "byte list \<Rightarrow> string" where
  "base64 [] = []"
| "base64 [a] =
     (let n = unat a * 65536
      in [base64_char (n div 262144), base64_char (n div 4096), CHR ''='', CHR ''=''])"
| "base64 [a, b] =
     (let n = unat a * 65536 + unat b * 256
      in [base64_char (n div 262144), base64_char (n div 4096), base64_char (n div 64),
          CHR ''=''])"
| "base64 (a # b # c # rest) =
     (let n = unat a * 65536 + unat b * 256 + unat c
      in [base64_char (n div 262144), base64_char (n div 4096), base64_char (n div 64),
          base64_char n] @ base64 rest)"

section \<open>MessageV2 (src/structures/MessageV2.js)\<close>

text \<open>The \<open>data\<close> object given to the constructor; a property that is absent reads as \<open>undefined\<close>.\<close>

record messageV2_data =
  data_client :: js_value
  data_timestamp :: js_value
  data_sender :: js_value
  data_conversation :: js_value
  data_extras :: js_value
  data_message :: js_value

definition empty_data :: messageV2_data where
  "empty_data =
     \<lparr>data_client = JUndefined, data_timestamp = JUndefined, data_sender = JUndefined,
      data_conversation = JUndefined, data_extras = JUndefined, data_message = JUndefined\<rparr>"

record messageV2 =
  v2_client :: js_value
  v2_timestamp :: js_value
  v2_sender :: js_value
  v2_extras :: js_value
  v2_conversation :: js_value
  v2_message :: js_value

text \<open>\<open>constructor(data = {})\<close>: \<open>None\<close> is the call without an argument.\<close>

definition MessageV2_constructor :: "messageV2_data option \<Rightarrow> messageV2" where
  "MessageV2_constructor arg =
     (let data = (case arg of None \<Rightarrow> empty_data | Some d \<Rightarrow> d)
      in \<lparr>v2_client = data_client data,
          v2_timestamp = data_timestamp data,
          v2_sender = data_sender data,
          v2_extras = js_or (data_extras data) (JArr []),
          v2_conversation = data_conversation data,
          v2_message = js_or (data_message data) (JStr [])\<rparr>)"

text \<open>The getters.\<close>

definition MessageV2_client :: "messageV2 \<Rightarrow> js_value" where
  "MessageV2_client m = v2_client m"

definition MessageV2_timestamp :: "messageV2 \<Rightarrow> js_value" where
  "MessageV2_timestamp m = v2_timestamp m"

definition MessageV2_sender :: "messageV2 \<Rightarrow> js_value" where
  "MessageV2_sender m = v2_sender m"

definition MessageV2_conversation :: "messageV2 \<Rightarrow> js_value" where
  "MessageV2_conversation m = v2_conversation m"

definition MessageV2_extras :: "messageV2 \<Rightarrow> js_value" where
  "MessageV2_extras m = v2_extras m"

definition MessageV2_message :: "messageV2 \<Rightarrow> js_value" where
  "MessageV2_message m = v2_message m"

section \<open>Conversations and the legacy message\<close>

text \<open>
  A conversation object: its identifier and which of the two classes it is
  (\<open>UserConversation\<close>, whose \<open>type\<close> is \<open>"user"\<close>, or \<open>GroupConversation\<close>).
  Conversation objects live in a store and are handed around by reference (their index
  in the store), so that "the same instance" is "the same reference".
\<close>

datatype conversation_class = UserConversation | GroupConversation

record conversation =
  conv_id :: string
  conv_class :: conversation_class

text \<open>
  Modelled from the spec: the legacy \<open>Message\<close> structure (structures/Message.js is not
  among the sources). The spec gives it a timestamp, a sender identifier, the
  conversation, the content and an attachments list, immutable once constructed, with
  absent content defaulting to the empty string.
\<close>

record message =
  msg_client :: js_value
  msg_timestamp :: js_value
  msg_authorID :: js_value
  msg_conversation :: js_value
  msg_attachments :: js_value
  msg_content :: js_value

definition Message_constructor ::
  "js_value \<Rightarrow> js_value \<Rightarrow> js_value \<Rightarrow> js_value \<Rightarrow> js_value \<Rightarrow> js_value \<Rightarrow> message" where
  "Message_constructor client timestamp authorID conversation attachments content =
     \<lparr>msg_client = client, msg_timestamp = timestamp, msg_authorID = authorID,
      msg_conversation = conversation, msg_attachments = attachments,
      msg_content = (if content = JUndefined then JStr [] else content)\<rparr>"

section \<open>The client (src/client/Client.js)\<close>

subsection \<open>Settings and the constructor's checks\<close>

text \<open>
  \<open>this.settings\<close>, as it stands after the merge with the defaults. \<open>dbus\<close> may be
  missing (the checks read it with \<open>?.\<close>), and every checked property may hold any value.
\<close>

record dbus_settings =
  connectionCheckInterval :: js_value
  destination :: js_value
  dbus_type :: js_value

record client_settings =
  dbus :: "dbus_settings option"
  phoneNumber :: js_value
  debug :: bool

text \<open>\<open>this.settings.dbus?.f\<close>\<close>

definition dbus_get :: "(dbus_settings \<Rightarrow> js_value) \<Rightarrow> client_settings \<Rightarrow> js_value" where
  "dbus_get f s = (case dbus s of None \<Rightarrow> JUndefined | Some d \<Rightarrow> f d)"

text \<open>
  The five \<open>TypeError\<close>s of the constructor, by their message. The third check (on
  \<open>dbus.type\<close>) raises the message of the second, with the destination in it.
\<close>

datatype type_error =
    BadConnectionCheckInterval js_value
  | BadDestination js_value
  | BadPhoneNumber js_value
  | PlusPhoneNumber

text \<open>What the application is sent, and what the client does that can be observed, in order.\<close>

datatype app_event =
    EvDisconnect
  | EvError js_value
  | EvMessage message
  | EvMessageV2 messageV2

datatype debug_line =
    IgnoringUnauthenticatedQuote
  | DisconnectLine
  | ErrorLine js_value
  | MessageReceivedLine int64 string "byte list" string "string list"

datatype effect =
    DebugLog debug_line
  | ConsoleLog string
  | OpenSessionBus
  | OpenSystemBus
  | GetProxyObject js_value js_value
  | GetInterface
  | SetInterval js_value
  | ListenOn string
  | PatchInSignature
  | GetRegistrationStatus
  | ClearInterval
  | BusDisconnect
  | RemoveAllListeners
  | Emit app_event

text \<open>
  The client's state: its settings, the conversation cache (identifier to reference) and
  the store of conversation objects; the timers (the handles of the intervals that are
  set and not cleared, how many were ever set, and the handle the client holds in
  \<open>_connectionCheckInterval\<close>, which each \<open>connect\<close> overwrites); how many probes have been
  issued and have not settled yet; whether the bus and the interface the client holds
  are open and listened on; and the effects so far.
\<close>

record client =
  settings :: client_settings
  cache :: "string \<rightharpoonup> nat"
  heap :: "conversation list"
  intervals :: "nat list"
  interval_count :: nat
  check_interval :: "nat option"
  in_flight :: nat
  bus_connected :: bool
  listening :: bool
  effects :: "effect list"

text \<open>The interval the client holds is set.\<close>

definition timer_running :: "client \<Rightarrow> bool" where
  "timer_running c =
     (case check_interval c of None \<Rightarrow> False | Some h \<Rightarrow> h \<in> set (intervals c))"

text \<open>
  \<open>setInterval\<close> gives a handle that was not given before; \<open>clearInterval\<close> takes the one
  it is given out of the intervals that are set, and does nothing with \<open>undefined\<close> or
  with a handle that is cleared already.
\<close>

definition setInterval :: "client \<Rightarrow> nat \<times> client" where
  "setInterval c =
     (interval_count c,
      c\<lparr>intervals := interval_count c # intervals c, interval_count := Suc (interval_count c)\<rparr>)"

definition clearInterval :: "nat option \<Rightarrow> client \<Rightarrow> client" where
  "clearInterval timer c =
     (case timer of None \<Rightarrow> c | Some h \<Rightarrow> c\<lparr>intervals := removeAll h (intervals c)\<rparr>)"

definition perform :: "effect \<Rightarrow> client \<Rightarrow> client" where
  "perform x c = c\<lparr>effects := effects c @ [x]\<rparr>"

definition Client_constructor :: "client_settings \<Rightarrow> type_error + client" where
  "Client_constructor s =
     (if typeof (dbus_get connectionCheckInterval s) \<noteq> ''number''
        then Inl (BadConnectionCheckInterval (dbus_get connectionCheckInterval s))
      else if typeof (dbus_get destination s) \<noteq> ''string''
        then Inl (BadDestination (dbus_get destination s))
      else if dbus_get dbus_type s \<notin> set [JStr ''system'', JStr ''session'']
        then Inl (BadDestination (dbus_get destination s))
      else if eq_null (phoneNumber s)
        then Inl (BadPhoneNumber (phoneNumber s))
      else if typeof (phoneNumber s) = ''string''
              \<and> (case phoneNumber s of JStr n \<Rightarrow> startsWith n ''+'' | _ \<Rightarrow> False)
        then Inl PlusPhoneNumber
      else Inr \<lparr>settings = s, cache = Map.empty, heap = [], intervals = [],
                interval_count = 0, check_interval = None, in_flight = 0,
                bus_connected = False, listening = False, effects = []\<rparr>)"

subsection \<open>connect\<close>

datatype transport_error = TransportError string

text \<open>
  \<open>connect\<close>, given whether \<open>getProxyObject\<close> resolves. The bus is opened for the scope,
  the proxy of the account's object is asked for, and once it is there the interval is
  set and the three listeners are attached.
\<close>

definition connect ::
  "(transport_error + unit) \<Rightarrow> client \<Rightarrow> (transport_error + unit) \<times> client" where
  "connect proxy c =
     (let c1 = (if dbus_get dbus_type (settings c) = JStr ''session''
                then perform OpenSessionBus c else perform OpenSystemBus c)
               \<lparr>bus_connected := True\<rparr>;
          c2 = perform (GetProxyObject (dbus_get destination (settings c1))
                          (phoneNumber (settings c1))) c1
      in case proxy of
           Inl e \<Rightarrow> (Inl e, c2)
         | Inr u \<Rightarrow>
             (let c3 = perform GetInterface c2;
                  (h, c3') = setInterval
                     (perform (SetInterval (dbus_get connectionCheckInterval (settings c3))) c3);
                  c4 = c3'\<lparr>check_interval := Some h\<rparr>;
                  c5 = perform (ListenOn ''error'') c4;
                  c6 = perform (ListenOn ''MessageReceivedV2'') c5;
                  c7 = (perform (ListenOn ''MessageReceived'') c6)\<lparr>listening := True\<rparr>
              in (Inr (), perform PatchInSignature c7)))"

text \<open>
  \<open>new Client(settings)\<close> followed by \<open>connect()\<close>: what it ends with, and the effects
  it had. A constructor that throws leaves no client to connect.
\<close>

definition new_and_connect ::
  "client_settings \<Rightarrow> (transport_error + unit) \<Rightarrow>
     (type_error + (transport_error + unit)) \<times> effect list" where
  "new_and_connect s proxy =
     (case Client_constructor s of
        Inl e \<Rightarrow> (Inl e, [])
      | Inr c \<Rightarrow> (let (r, c') = connect proxy c in (Inr r, effects c')))"

subsection \<open>The connection check\<close>

text \<open>
  What the probe can throw: an error that may carry the daemon's reply, whose body is the
  list of the reply's arguments (for a D-Bus error, strings: the error text first).
\<close>

record dbus_reply =
  body :: "string list"

record thrown_error =
  reply :: "dbus_reply option"

datatype probe_result = Resolved | Rejected thrown_error

definition UnauthenticatedQuoteException :: string where
  "UnauthenticatedQuoteException =
     ''org.whispersystems.signalservice.internal.contacts.crypto.UnauthenticatedQuoteException''"

text \<open>\<open>e.reply?.body[0]?.includes(...)\<close>, as the \<open>if\<close> reads it.\<close>

definition benign :: "thrown_error \<Rightarrow> bool" where
  "benign e =
     (case reply e of
        None \<Rightarrow> False
      | Some r \<Rightarrow>
          (case body r of
             [] \<Rightarrow> False
           | b # bs \<Rightarrow> includes_str b UnauthenticatedQuoteException))"

text \<open>The \<open>else\<close> branch of the \<open>catch\<close>.\<close>

definition teardown :: "client \<Rightarrow> client" where
  "teardown c =
     (let c0 = (if debug (settings c) then perform (DebugLog DisconnectLine) c else c);
          c1 = clearInterval (check_interval c0) (perform ClearInterval c0);
          c2 = (perform BusDisconnect c1)\<lparr>bus_connected := False\<rparr>;
          c3 = (perform RemoveAllListeners c2)\<lparr>listening := False\<rparr>
      in perform (Emit EvDisconnect) c3)"

text \<open>The interval's callback, from the point where the probe has settled.\<close>

definition connection_check :: "probe_result \<Rightarrow> client \<Rightarrow> client" where
  "connection_check res c =
     (case res of
        Resolved \<Rightarrow> c
      | Rejected e \<Rightarrow>
          if benign e
          then (if debug (settings c) then perform (DebugLog IgnoringUnauthenticatedQuote) c
                else c)
          else teardown c)"








subsection \<open>The conversation registry\<close>

text \<open>
  Modelled from the spec: the \<open>ConversationManager\<close> (managers/ConversationManager.js is
  not among the sources), of which the client calls \<open>cache.get\<close>, \<open>from\<close> and
  \<open>_addToCache\<close>. The spec makes the cache a mapping from conversation identifier to
  conversation, with \<open>get(id)\<close> giving the conversation or nothing and the insertion
  filing a conversation under its identifier; a conversation has the identifier it was
  made for. \<open>from\<close> is given the identifier and nothing else of the event, so which
  class it builds is a parameter \<open>variant\<close>, a function of the identifier.
\<close>

definition ConversationManager_from ::
  "(string \<Rightarrow> conversation_class) \<Rightarrow> string \<Rightarrow> client
     \<Rightarrow> (nat \<times> conversation) \<times> client" where
  "ConversationManager_from variant ident c =
     (let conv = \<lparr>conv_id = ident, conv_class = variant ident\<rparr>
      in ((length (heap c), conv), c\<lparr>heap := heap c @ [conv]\<rparr>))"

text \<open>
  Modelled from the spec: \<open>_addToCache\<close> of the \<open>ConversationManager\<close>, the spec's
  \<open>insert(id, conversation)\<close> at the conversation's own identifier.
\<close>

definition ConversationManager_addToCache :: "nat \<times> conversation \<Rightarrow> client \<Rightarrow> client" where
  "ConversationManager_addToCache rc c = c\<lparr>cache := (cache c)(conv_id (snd rc) \<mapsto> fst rc)\<rparr>"

text \<open>
  The lookup both handlers make: \<open>cache.get\<close>, and on \<open>undefined\<close> \<open>from\<close> and
  \<open>_addToCache\<close>. It gives the reference of the conversation.
\<close>

definition get_or_create ::
  "(string \<Rightarrow> conversation_class) \<Rightarrow> string \<Rightarrow> client \<Rightarrow> nat \<times> client" where
  "get_or_create variant conversationID c =
     (case cache c conversationID of
        Some r \<Rightarrow> (r, c)
      | None \<Rightarrow>
          (let (rc, c1) = ConversationManager_from variant conversationID c
           in (fst rc, ConversationManager_addToCache rc c1)))"

subsection \<open>Inbound events\<close>

text \<open>The signals of the bus interface, with the arguments they are delivered with.\<close>

datatype inbound =
    MessageReceived int64 string "byte list" string "string list"
  | MessageReceivedV2 int64 string "byte list" string "js_value list"
  | BusError js_value

text \<open>\<open>groupID.length ? groupID.toString("base64") : sender\<close>\<close>

definition conversationID_of :: "byte list \<Rightarrow> string \<Rightarrow> string" where
  "conversationID_of groupID sender = (if length groupID \<noteq> 0 then base64 groupID else sender)"

definition on_MessageReceivedV2 ::
  "(string \<Rightarrow> conversation_class) \<Rightarrow> int64 \<Rightarrow> string \<Rightarrow> byte list \<Rightarrow> string
     \<Rightarrow> js_value list \<Rightarrow> client \<Rightarrow> client" where
  "on_MessageReceivedV2 variant timestamp sender groupID msg extras c =
     (let conversationID = conversationID_of groupID sender;
          c1 = perform (ConsoleLog conversationID) c;
          (conversation, c2) = get_or_create variant conversationID c1;
          messageV2 = MessageV2_constructor (Some
            \<lparr>data_client = JObj ClientRef,
             data_timestamp = JNum (Number_of_BigInt timestamp),
             data_sender = JStr sender,
             data_conversation = JObj (ConvRef conversation),
             data_extras = JArr extras,
             data_message = JStr msg\<rparr>)
      in perform (Emit (EvMessageV2 messageV2)) c2)"

definition on_MessageReceived ::
  "(string \<Rightarrow> conversation_class) \<Rightarrow> int64 \<Rightarrow> string \<Rightarrow> byte list \<Rightarrow> string
     \<Rightarrow> string list \<Rightarrow> client \<Rightarrow> client" where
  "on_MessageReceived variant timestamp authorID groupID content attachments c =
     (let c1 = (if debug (settings c)
                then perform (DebugLog
                       (MessageReceivedLine timestamp authorID groupID content attachments)) c
                else c);
          conversationID = conversationID_of groupID authorID;
          (conversation, c2) = get_or_create variant conversationID c1;
          m = Message_constructor (JObj ClientRef) (JNum (Number_of_BigInt timestamp))
                (JStr authorID) (JObj (ConvRef conversation)) (JArr (map JStr attachments))
                (JStr content)
      in perform (Emit (EvMessage m)) c2)"

definition on_error :: "js_value \<Rightarrow> client \<Rightarrow> client" where
  "on_error e c =
     perform (Emit (EvError e))
       (if debug (settings c) then perform (DebugLog (ErrorLine e)) c else c)"

fun handle :: "(string \<Rightarrow> conversation_class) \<Rightarrow> inbound \<Rightarrow> client \<Rightarrow> client" where
  "handle variant (MessageReceived timestamp authorID groupID content attachments) c =
     on_MessageReceived variant timestamp authorID groupID content attachments c"
| "handle variant (MessageReceivedV2 timestamp sender groupID msg extras) c =
     on_MessageReceivedV2 variant timestamp sender groupID msg extras c"
| "handle variant (BusError e) c = on_error e c"

text \<open>A signal reaches its handler while the listeners are attached.\<close>

definition deliver :: "(string \<Rightarrow> conversation_class) \<Rightarrow> inbound \<Rightarrow> client \<Rightarrow> client" where
  "deliver variant ev c = (if listening c then handle variant ev c else c)"

fun deliver_all ::
  "(string \<Rightarrow> conversation_class) \<Rightarrow> inbound list \<Rightarrow> client \<Rightarrow> client" where
  "deliver_all variant [] c = c"
| "deliver_all variant (ev # evs) c = deliver_all variant evs (deliver variant ev c)"

text \<open>Reading the emitted messages back: the conversation and the timestamp each carries.\<close>

fun emitted_conversation :: "effect \<Rightarrow> js_value option" where
  "emitted_conversation (Emit (EvMessage m)) = Some (msg_conversation m)"
| "emitted_conversation (Emit (EvMessageV2 m)) = Some (MessageV2_conversation m)"
| "emitted_conversation x = None"

fun emitted_timestamp :: "effect \<Rightarrow> js_value option" where
  "emitted_timestamp (Emit (EvMessage m)) = Some (msg_timestamp m)"
| "emitted_timestamp (Emit (EvMessageV2 m)) = Some (MessageV2_timestamp m)"
| "emitted_timestamp x = None"

text \<open>The references of the conversations that the emitted messages carry, in order.\<close>

fun emitted_refs :: "effect list \<Rightarrow> nat list" where
  "emitted_refs [] = []"
| "emitted_refs (x # xs) =
     (case emitted_conversation x of
        Some (JObj (ConvRef r)) \<Rightarrow> r # emitted_refs xs
      | _ \<Rightarrow> emitted_refs xs)"

text \<open>
  The registry's invariant: a cached reference points into the store, at a conversation
  with the identifier it is cached under; every conversation of the store is cached; no
  two have the same identifier; and each has the class \<open>variant\<close> gives its identifier.
\<close>

definition registry_invariant :: "(string \<Rightarrow> conversation_class) \<Rightarrow> client \<Rightarrow> bool" where
  "registry_invariant variant c \<longleftrightarrow>
     (\<forall>k r. cache c k = Some r \<longrightarrow> r < length (heap c) \<and> conv_id (heap c ! r) = k)
     \<and> (\<forall>conv \<in> set (heap c). cache c (conv_id conv) \<noteq> None
                                \<and> conv_class conv = variant (conv_id conv))
     \<and> distinct (map conv_id (heap c))"

text \<open>The payload of a message signal: its raw timestamp, and the identifier it resolves to.\<close>

fun raw_timestamp :: "inbound \<Rightarrow> int64 option" where
  "raw_timestamp (MessageReceived timestamp authorID groupID content attachments) = Some timestamp"
| "raw_timestamp (MessageReceivedV2 timestamp sender groupID msg extras) = Some timestamp"
| "raw_timestamp (BusError e) = None"

fun group_bytes :: "inbound \<Rightarrow> byte list" where
  "group_bytes (MessageReceived timestamp authorID groupID content attachments) = groupID"
| "group_bytes (MessageReceivedV2 timestamp sender groupID msg extras) = groupID"
| "group_bytes (BusError e) = []"

fun sender_of :: "inbound \<Rightarrow> string" where
  "sender_of (MessageReceived timestamp authorID groupID content attachments) = authorID"
| "sender_of (MessageReceivedV2 timestamp sender groupID msg extras) = sender"
| "sender_of (BusError e) = []"

fun is_message :: "inbound \<Rightarrow> bool" where
  "is_message (BusError e) = False"
| "is_message ev = True"

section \<open>UserConversation (src/structures/UserConversation.js)\<close>

text \<open>
  A call on the daemon's interface: the method and the arguments as they are passed.
  The daemon answers a call or the transport fails; \<open>sendMessage\<close> is answered with a
  64-bit timestamp.
\<close>

datatype dbus_value = DStr string | DBool bool | DArr "dbus_value list"

datatype daemon_call = Call string "dbus_value list"

type_synonym 'r daemon = "daemon_call \<Rightarrow> transport_error + 'r"

text \<open>\<open>sendMessage(content, attachments = [])\<close>: \<open>None\<close> is the argument left out.\<close>

definition sendMessage ::
  "conversation \<Rightarrow> string \<Rightarrow> string list option \<Rightarrow> int64 daemon
     \<Rightarrow> daemon_call list \<times> (transport_error + int)" where
  "sendMessage this content attachments busInterface =
     (let atts = (case attachments of None \<Rightarrow> [] | Some a \<Rightarrow> a);
          conversation = [conv_id this];
          call = Call ''sendMessage''
                   [DStr content, DArr (map DStr atts), DArr (map DStr conversation)]
      in ([call],
          case busInterface call of
            Inl e \<Rightarrow> Inl e
          | Inr timestamp \<Rightarrow> Inr (Number_of_BigInt timestamp)))"

text \<open>\<open>sendTyping(stop = false)\<close>\<close>

definition sendTyping ::
  "conversation \<Rightarrow> bool option \<Rightarrow> unit daemon \<Rightarrow> daemon_call list \<times> (transport_error + unit)" where
  "sendTyping this stop busInterface =
     (let call = Call ''sendTyping''
                   [DStr (conv_id this), DBool (case stop of None \<Rightarrow> False | Some b \<Rightarrow> b)]
      in ([call], busInterface call))"

definition resetSession ::
  "conversation \<Rightarrow> unit daemon \<Rightarrow> daemon_call list \<times> (transport_error + unit)" where
  "resetSession this busInterface =
     (let conversation = [conv_id this];
          call = Call ''sendEndSessionMessage'' [DArr (map DStr conversation)]
      in ([call], busInterface call))"

text \<open>The argument a call addresses its recipient with: the last of \<open>sendMessage\<close> and of
  \<open>sendEndSessionMessage\<close>, the first of \<open>sendTyping\<close>.\<close>

fun recipient_argument :: "daemon_call \<Rightarrow> dbus_value option" where
  "recipient_argument (Call m as) =
     (if m = ''sendMessage'' then (case as of [c, a, r] \<Rightarrow> Some r | _ \<Rightarrow> None)
      else if m = ''sendTyping'' then (case as of [r, s] \<Rightarrow> Some r | _ \<Rightarrow> None)
      else if m = ''sendEndSessionMessage'' then (case as of [r] \<Rightarrow> Some r | _ \<Rightarrow> None)
      else None)"

section \<open>A session to run the model on\<close>

text \<open>
  Valid settings, the client constructed from them, the client once connected, the same
  with one probe in flight, the client connected a second time, an error of a daemon
  that is gone, a factory that goes by the leading \<open>+\<close> of a phone number, and three
  signals: two for one group from two senders, and one direct message.
\<close>

definition example_settings :: client_settings where
  "example_settings =
     \<lparr>dbus = Some \<lparr>connectionCheckInterval = JNum 5000,
                    destination = JStr ''org.asamk.Signal'',
                    dbus_type = JStr ''system''\<rparr>,
      phoneNumber = JStr ''15551234567'',
      debug = False\<rparr>"

definition example_client :: client where
  "example_client =
     \<lparr>settings = example_settings, cache = Map.empty, heap = [], intervals = [],
      interval_count = 0, check_interval = None, in_flight = 0,
      bus_connected = False, listening = False, effects = []\<rparr>"

definition example_session :: client where
  "example_session = snd (connect (Inr ()) example_client)"




definition example_variant :: "string \<Rightarrow> conversation_class" where
  "example_variant ident =
     (if startsWith ident ''+'' then UserConversation else GroupConversation)"

definition example_events :: "inbound list" where
  "example_events =
     [MessageReceivedV2 1700000000000 ''+15550000000'' [0x4D, 0x61] ''a'' [],
      MessageReceived 1700000000001 ''+15551111111'' [0x4D, 0x61] ''b'' [],
      MessageReceivedV2 1700000000002 ''+15550000000'' [] ''c'' []]"

section \<open>Strings and numbers\<close>

lemma startsWith_iff: "startsWith s p \<longleftrightarrow> (\<exists>suf. s = p @ suf)"
  by (induction s p rule: startsWith.induct) auto


lemma eq_null_iff: "eq_null v \<longleftrightarrow> v = JUndefined \<or> v = JNull"
  by (cases v) auto

lemma bit_length_less: "n < 2 ^ bit_length n"
proof (induction n rule: bit_length.induct)
  case (1 n)
  show ?case
  proof (cases "n = 0")
    case True
    then show ?thesis by (simp add: bit_length.simps)
  next
    case False
    with 1 have "n div 2 < 2 ^ bit_length (n div 2)" by simp
    then have "n < 2 * 2 ^ bit_length (n div 2)" by arith
    with False show ?thesis by (simp add: bit_length.simps [of n])
  qed
qed

lemma bit_length_le: "n < 2 ^ k \<Longrightarrow> bit_length n \<le> k"
proof (induction n arbitrary: k rule: bit_length.induct)
  case (1 n)
  show ?case
  proof (cases "n = 0")
    case True
    then show ?thesis by (simp add: bit_length.simps)
  next
    case False
    with "1.prems" obtain k' where k: "k = Suc k'" by (cases k) auto
    with "1.prems" have "n div 2 < 2 ^ k'" by auto
    with 1 False have "bit_length (n div 2) \<le> k'" by simp
    with False k show ?thesis by (simp add: bit_length.simps [of n])
  qed
qed

lemma bit_length_gt: "2 ^ k \<le> n \<Longrightarrow> k < bit_length n"
proof (rule ccontr)
  assume a: "2 ^ k \<le> n" and "\<not> k < bit_length n"
  then have "bit_length n \<le> k" by simp
  then have "(2::nat) ^ bit_length n \<le> 2 ^ k" by (simp add: power_increasing)
  with bit_length_less [of n] a show False by simp
qed

lemma round_to_double_exact: "m < 2 ^ 53 \<Longrightarrow> round_to_double m = m"
  by (simp add: round_to_double_def)

lemma round_to_double_le: "round_to_double m \<le> 2 ^ bit_length m"
proof (cases "m < 2 ^ 53")
  case True
  with bit_length_less [of m] show ?thesis by (simp add: round_to_double_def)
next
  case False
  define e where "e = bit_length m - 53"
  define q where "q = m div 2 ^ e"
  from False have "53 < bit_length m" by (intro bit_length_gt) simp
  then have bl: "bit_length m = 53 + e" by (simp add: e_def)
  have "m < 2 ^ 53 * 2 ^ e" using bit_length_less [of m] by (simp add: bl power_add)
  then have "q < 2 ^ 53" unfolding q_def by (simp add: less_mult_imp_div_less)
  then have "q + 1 \<le> 2 ^ 53" by simp
  then have up: "(q + 1) * 2 ^ e \<le> 2 ^ bit_length m"
    by (simp add: bl power_add)
  have "q * 2 ^ e \<le> m" by (simp add: q_def)
  with bit_length_less [of m] have down: "q * 2 ^ e \<le> 2 ^ bit_length m" by simp
  from False up down show ?thesis
    by (simp add: round_to_double_def Let_def e_def [symmetric] q_def [symmetric])
qed

lemma round_to_double_64: "m \<le> 2 ^ 63 \<Longrightarrow> round_to_double m \<le> 2 ^ 63"
proof (cases "m = 2 ^ 63")
  case True
  then show ?thesis by (simp add: round_to_double_def bit_length.simps)
next
  case False
  assume "m \<le> 2 ^ 63"
  with False have "m < 2 ^ 63" by simp
  then have "bit_length m \<le> 63" by (rule bit_length_le)
  then have "(2::nat) ^ bit_length m \<le> 2 ^ 63" by (intro power_increasing) simp_all
  with round_to_double_le [of m] show ?thesis by simp
qed

lemma Number_of_BigInt_exact:
  "\<bar>sint w\<bar> < 2 ^ 53 \<Longrightarrow> Number_of_BigInt w = sint w"
  by (auto simp: Number_of_BigInt_def Let_def round_to_double_exact)

lemma Number_of_BigInt_bound: "\<bar>Number_of_BigInt w\<bar> \<le> 2 ^ 63"
proof -
  have lo: "- (2 ^ 63) \<le> sint w" using sint_ge [of w] by simp
  have hi: "sint w < 2 ^ 63" using sint_lt [of w] by simp
  show ?thesis
  proof (cases "sint w < 0")
    case True
    with lo have "nat (- sint w) \<le> 2 ^ 63" by simp
    then have "round_to_double (nat (- sint w)) \<le> 2 ^ 63" by (rule round_to_double_64)
    then have "int (round_to_double (nat (- sint w))) \<le> 2 ^ 63" by simp
    with True show ?thesis by (simp add: Number_of_BigInt_def Let_def)
  next
    case False
    with hi have "nat (sint w) \<le> 2 ^ 63" by simp
    then have "round_to_double (nat (sint w)) \<le> 2 ^ 63" by (rule round_to_double_64)
    then have "int (round_to_double (nat (sint w))) \<le> 2 ^ 63" by simp
    with False show ?thesis by (simp add: Number_of_BigInt_def Let_def)
  qed
qed

section \<open>The effects of a step\<close>

lemma effects_perform [simp]: "effects (perform x c) = effects c @ [x]"
  by (simp add: perform_def)

lemma settings_perform [simp]: "settings (perform x c) = settings c"
  by (simp add: perform_def)

lemma intervals_perform [simp]: "intervals (perform x c) = intervals c"
  by (simp add: perform_def)

lemma interval_count_perform [simp]: "interval_count (perform x c) = interval_count c"
  by (simp add: perform_def)

lemma check_interval_perform [simp]: "check_interval (perform x c) = check_interval c"
  by (simp add: perform_def)

lemma in_flight_perform [simp]: "in_flight (perform x c) = in_flight c"
  by (simp add: perform_def)

lemma timer_running_perform [simp]: "timer_running (perform x c) = timer_running c"
  by (simp add: timer_running_def split: option.splits)

lemma clearInterval_frame [simp]:
  "effects (clearInterval timer c) = effects c"
  "settings (clearInterval timer c) = settings c"
  "check_interval (clearInterval timer c) = check_interval c"
  "in_flight (clearInterval timer c) = in_flight c"
  "bus_connected (clearInterval timer c) = bus_connected c"
  "listening (clearInterval timer c) = listening c"
  by (simp_all add: clearInterval_def split: option.splits)

lemma bus_connected_perform [simp]: "bus_connected (perform x c) = bus_connected c"
  by (simp add: perform_def)

lemma listening_perform [simp]: "listening (perform x c) = listening c"
  by (simp add: perform_def)

lemma cache_perform [simp]: "cache (perform x c) = cache c"
  by (simp add: perform_def)

lemma heap_perform [simp]: "heap (perform x c) = heap c"
  by (simp add: perform_def)

lemma registry_invariant_perform [simp]:
  "registry_invariant variant (perform x c) = registry_invariant variant c"
  by (simp add: registry_invariant_def)

lemma emitted_refs_append: "emitted_refs (xs @ ys) = emitted_refs xs @ emitted_refs ys"
  by (induction xs) (auto split: option.splits js_value.splits obj_ref.splits)

section \<open>The constructor\<close>

lemma constructor_throws_iff:
  "isl (Client_constructor s) \<longleftrightarrow>
     typeof (dbus_get connectionCheckInterval s) \<noteq> ''number''
     \<or> typeof (dbus_get destination s) \<noteq> ''string''
     \<or> (dbus_get dbus_type s \<noteq> JStr ''system'' \<and> dbus_get dbus_type s \<noteq> JStr ''session'')
     \<or> phoneNumber s = JUndefined \<or> phoneNumber s = JNull
     \<or> (\<exists>n. phoneNumber s = JStr (CHR ''+'' # n))"
proof -
  have plus: "(case phoneNumber s of JStr n \<Rightarrow> startsWith n ''+'' | _ \<Rightarrow> False)
      \<longleftrightarrow> (\<exists>n. phoneNumber s = JStr (CHR ''+'' # n))"
    by (cases "phoneNumber s") (auto simp: startsWith_iff)
  have str: "(\<exists>n. phoneNumber s = JStr (CHR ''+'' # n)) \<Longrightarrow> typeof (phoneNumber s) = ''string''"
    by auto
  show ?thesis
    unfolding Client_constructor_def plus
    using str by (auto simp: eq_null_iff)
qed

lemma connect_effects_nonempty: "effects (snd (connect proxy c)) \<noteq> []"
  by (cases proxy) (simp_all add: connect_def Let_def setInterval_def)

lemma example_client_constructed: "Client_constructor example_settings = Inr example_client"
  by (simp add: Client_constructor_def example_settings_def example_client_def dbus_get_def)

lemma example_session_connected:
  "connect (Inr ()) example_client = (fst (connect (Inr ()) example_client), example_session)"
  by (simp add: example_session_def)

lemma example_session_state:
  "cache example_session = Map.empty" "heap example_session = []"
  "timer_running example_session" "listening example_session"
  "debug (settings example_session) = False"
  "intervals example_session = [0]" "check_interval example_session = Some 0"
  "in_flight example_session = 0" "interval_count example_session = 1"
  by (simp_all add: example_session_def connect_def Let_def example_client_def
      example_settings_def perform_def setInterval_def timer_running_def)


section \<open>The connection check\<close>


lemma effects_teardown:
  "effects (teardown c) =
     effects c @ (if debug (settings c) then [DebugLog DisconnectLine] else [])
       @ [ClearInterval, BusDisconnect, RemoveAllListeners, Emit EvDisconnect]"
  by (simp add: teardown_def Let_def)

lemma timers_teardown:
  "intervals (teardown c) =
     (case check_interval c of None \<Rightarrow> intervals c | Some h \<Rightarrow> removeAll h (intervals c))"
  "check_interval (teardown c) = check_interval c"
  "in_flight (teardown c) = in_flight c"
  by (simp_all add: teardown_def Let_def clearInterval_def split: option.splits)

lemma flags_teardown:
  "\<not> timer_running (teardown c) \<and> \<not> bus_connected (teardown c) \<and> \<not> listening (teardown c)"
proof -
  have "\<not> timer_running (teardown c)"
    by (simp add: timer_running_def timers_teardown split: option.splits)
  moreover have "\<not> bus_connected (teardown c) \<and> \<not> listening (teardown c)"
    by (simp add: teardown_def Let_def)
  ultimately show ?thesis by simp
qed







section \<open>The registry and the handlers\<close>

lemma get_or_create_hit:
  "cache c k = Some r \<Longrightarrow> get_or_create variant k c = (r, c)"
  by (simp add: get_or_create_def)

lemma get_or_create_miss:
  "cache c k = None \<Longrightarrow>
     get_or_create variant k c =
       (length (heap c),
        c\<lparr>heap := heap c @ [\<lparr>conv_id = k, conv_class = variant k\<rparr>],
          cache := (cache c)(k \<mapsto> length (heap c))\<rparr>)"
  by (simp add: get_or_create_def ConversationManager_from_def
      ConversationManager_addToCache_def Let_def)

lemma get_or_create_cached:
  "get_or_create variant k c = (r, c') \<Longrightarrow> cache c' k = Some r"
  by (cases "cache c k") (auto simp: get_or_create_hit get_or_create_miss)

lemma get_or_create_frame:
  "get_or_create variant k c = (r, c') \<Longrightarrow>
     effects c' = effects c \<and> settings c' = settings c \<and> listening c' = listening c"
  by (cases "cache c k") (auto simp: get_or_create_hit get_or_create_miss)

lemma get_or_create_cache_mono:
  "get_or_create variant k c = (r, c') \<Longrightarrow> cache c k' = Some r' \<Longrightarrow> cache c' k' = Some r'"
  by (cases "cache c k") (auto simp: get_or_create_hit get_or_create_miss)

lemma get_or_create_invariant:
  assumes "get_or_create variant k c = (r, c')" and "registry_invariant variant c"
  shows "registry_invariant variant c'"
proof (cases "cache c k")
  case (Some r0)
  with assms show ?thesis by (simp add: get_or_create_hit)
next
  case None
  have fresh: "k \<notin> conv_id ` set (heap c)"
  proof
    assume "k \<in> conv_id ` set (heap c)"
    then obtain conv where "conv \<in> set (heap c)" "conv_id conv = k" by auto
    with assms(2) have "cache c k \<noteq> None" by (auto simp: registry_invariant_def)
    with None show False by simp
  qed
  have c': "c' = c\<lparr>heap := heap c @ [\<lparr>conv_id = k, conv_class = variant k\<rparr>],
          cache := (cache c)(k \<mapsto> length (heap c))\<rparr>"
    using assms(1) None by (auto simp: get_or_create_miss)
  have inv1: "\<forall>k r. cache c k = Some r \<longrightarrow> r < length (heap c) \<and> conv_id (heap c ! r) = k"
    and inv2: "\<forall>conv \<in> set (heap c). cache c (conv_id conv) \<noteq> None
                                \<and> conv_class conv = variant (conv_id conv)"
    and inv3: "distinct (map conv_id (heap c))"
    using assms(2) by (simp_all add: registry_invariant_def)
  have a: "r' < length (heap c') \<and> conv_id (heap c' ! r') = k'" if "cache c' k' = Some r'" for k' r'
  proof (cases "k' = k")
    case True
    with that show ?thesis by (auto simp: c' nth_append)
  next
    case False
    with that have "cache c k' = Some r'" by (simp add: c')
    with inv1 have "r' < length (heap c)" "conv_id (heap c ! r') = k'" by auto
    then show ?thesis by (simp add: c' nth_append)
  qed
  have b: "cache c' (conv_id conv) \<noteq> None \<and> conv_class conv = variant (conv_id conv)"
    if "conv \<in> set (heap c')" for conv
    using that inv2 by (auto simp: c')
  have d: "distinct (map conv_id (heap c'))"
    using inv3 fresh by (simp add: c')
  show ?thesis
    unfolding registry_invariant_def using a b d by blast
qed

lemma handle_message:
  assumes "is_message ev"
  shows "\<exists>pre r c1 c2 x.
      get_or_create variant (conversationID_of (group_bytes ev) (sender_of ev)) c1 = (r, c2)
      \<and> cache c1 = cache c \<and> heap c1 = heap c
      \<and> emitted_refs pre = []
      \<and> cache (handle variant ev c) = cache c2 \<and> heap (handle variant ev c) = heap c2
      \<and> listening (handle variant ev c) = listening c
      \<and> effects (handle variant ev c) = effects c @ pre @ [x]
      \<and> emitted_conversation x = Some (JObj (ConvRef r))
      \<and> emitted_timestamp x = map_option (\<lambda>t. JNum (Number_of_BigInt t)) (raw_timestamp ev)"
proof (cases ev)
  case (MessageReceived timestamp authorID groupID content attachments)
  define pre where "pre = (if debug (settings c) then [DebugLog
      (MessageReceivedLine timestamp authorID groupID content attachments)] else [])"
  define c1 where "c1 = (if debug (settings c)
                then perform (DebugLog
                       (MessageReceivedLine timestamp authorID groupID content attachments)) c
                else c)"
  obtain r c2 where g: "get_or_create variant (conversationID_of groupID authorID) c1 = (r, c2)"
    by (cases "get_or_create variant (conversationID_of groupID authorID) c1")
  define x where "x = Emit (EvMessage (Message_constructor (JObj ClientRef)
      (JNum (Number_of_BigInt timestamp)) (JStr authorID) (JObj (ConvRef r))
      (JArr (map JStr attachments)) (JStr content)))"
  have h: "handle variant ev c = perform x c2"
    using g by (simp add: MessageReceived on_MessageReceived_def Let_def c1_def x_def)
  have 1: "get_or_create variant (conversationID_of (group_bytes ev) (sender_of ev)) c1 = (r, c2)"
    using g by (simp add: MessageReceived)
  have 2: "cache c1 = cache c" "heap c1 = heap c" "listening c1 = listening c"
    "effects c1 = effects c @ pre"
    by (simp_all add: c1_def pre_def)
  have 3: "emitted_refs pre = []" by (simp add: pre_def)
  have 4: "cache (handle variant ev c) = cache c2" "heap (handle variant ev c) = heap c2"
    by (simp_all add: h)
  have 5: "listening (handle variant ev c) = listening c"
    using get_or_create_frame [OF g] 2 by (simp add: h)
  have 6: "effects (handle variant ev c) = effects c @ pre @ [x]"
    using get_or_create_frame [OF g] 2 by (simp add: h)
  have 7: "emitted_conversation x = Some (JObj (ConvRef r))"
    by (simp add: x_def Message_constructor_def)
  have 8: "emitted_timestamp x = map_option (\<lambda>t. JNum (Number_of_BigInt t)) (raw_timestamp ev)"
    by (simp add: x_def Message_constructor_def MessageReceived)
  from 1 2 3 4 5 6 7 8 show ?thesis by blast
next
  case (MessageReceivedV2 timestamp sender groupID msg extras)
  define pre where "pre = [ConsoleLog (conversationID_of groupID sender)]"
  define c1 where "c1 = perform (ConsoleLog (conversationID_of groupID sender)) c"
  obtain r c2 where g: "get_or_create variant (conversationID_of groupID sender) c1 = (r, c2)"
    by (cases "get_or_create variant (conversationID_of groupID sender) c1")
  define x where "x = Emit (EvMessageV2 (MessageV2_constructor (Some
            \<lparr>data_client = JObj ClientRef,
             data_timestamp = JNum (Number_of_BigInt timestamp),
             data_sender = JStr sender,
             data_conversation = JObj (ConvRef r),
             data_extras = JArr extras,
             data_message = JStr msg\<rparr>)))"
  have h: "handle variant ev c = perform x c2"
    using g by (simp add: MessageReceivedV2 on_MessageReceivedV2_def Let_def c1_def x_def)
  have 1: "get_or_create variant (conversationID_of (group_bytes ev) (sender_of ev)) c1 = (r, c2)"
    using g by (simp add: MessageReceivedV2)
  have 2: "cache c1 = cache c" "heap c1 = heap c" "listening c1 = listening c"
    "effects c1 = effects c @ pre"
    by (simp_all add: c1_def pre_def)
  have 3: "emitted_refs pre = []" by (simp add: pre_def)
  have 4: "cache (handle variant ev c) = cache c2" "heap (handle variant ev c) = heap c2"
    by (simp_all add: h)
  have 5: "listening (handle variant ev c) = listening c"
    using get_or_create_frame [OF g] 2 by (simp add: h)
  have 6: "effects (handle variant ev c) = effects c @ pre @ [x]"
    using get_or_create_frame [OF g] 2 by (simp add: h)
  have 7: "emitted_conversation x = Some (JObj (ConvRef r))"
    by (simp add: x_def MessageV2_constructor_def MessageV2_conversation_def)
  have 8: "emitted_timestamp x = map_option (\<lambda>t. JNum (Number_of_BigInt t)) (raw_timestamp ev)"
    by (simp add: x_def MessageV2_constructor_def MessageV2_timestamp_def MessageReceivedV2)
  from 1 2 3 4 5 6 7 8 show ?thesis by blast
next
  case (BusError e)
  with assms show ?thesis by simp
qed

lemma handle_error:
  "\<not> is_message ev \<Longrightarrow>
     cache (handle variant ev c) = cache c \<and> heap (handle variant ev c) = heap c
     \<and> listening (handle variant ev c) = listening c
     \<and> emitted_refs (effects (handle variant ev c)) = emitted_refs (effects c)"
  by (cases ev) (simp_all add: on_error_def emitted_refs_append)


lemma handle_invariant:
  assumes "registry_invariant variant c"
  shows "registry_invariant variant (handle variant ev c)"
proof (cases "is_message ev")
  case True
  from handle_message [OF True, of variant c] obtain pre r c1 c2 x where
    g: "get_or_create variant (conversationID_of (group_bytes ev) (sender_of ev)) c1 = (r, c2)"
    and c1: "cache c1 = cache c" "heap c1 = heap c"
    and h: "cache (handle variant ev c) = cache c2" "heap (handle variant ev c) = heap c2"
    by blast
  from assms c1 have "registry_invariant variant c1" by (simp add: registry_invariant_def)
  from get_or_create_invariant [OF g this] h show ?thesis
    by (simp add: registry_invariant_def)
next
  case False
  from handle_error [OF False, of variant c] assms show ?thesis
    by (simp add: registry_invariant_def)
qed

lemma handle_cache_mono:
  "cache c k = Some r \<Longrightarrow> cache (handle variant ev c) k = Some r"
proof (cases "is_message ev")
  case True
  assume k: "cache c k = Some r"
  from handle_message [OF True, of variant c] obtain pre r' c1 c2 x where
    g: "get_or_create variant (conversationID_of (group_bytes ev) (sender_of ev)) c1 = (r', c2)"
    and c1: "cache c1 = cache c"
    and h: "cache (handle variant ev c) = cache c2"
    by blast
  from k c1 have "cache c1 k = Some r" by simp
  from get_or_create_cache_mono [OF g this] h show ?thesis by simp
next
  case False
  assume "cache c k = Some r"
  with handle_error [OF False, of variant c] show ?thesis by simp
qed

lemma handle_listening: "listening (handle variant ev c) = listening c"
proof (cases "is_message ev")
  case True
  from handle_message [OF True, of variant c] show ?thesis by blast
next
  case False
  from handle_error [OF False, of variant c] show ?thesis by simp
qed

lemma deliver_all_invariant:
  "registry_invariant variant c \<Longrightarrow> registry_invariant variant (deliver_all variant evs c)"
  by (induction evs arbitrary: c) (simp_all add: deliver_def handle_invariant)

lemma deliver_all_cache_mono:
  "cache c k = Some r \<Longrightarrow> cache (deliver_all variant evs c) k = Some r"
  by (induction evs arbitrary: c) (simp_all add: deliver_def handle_cache_mono)

lemma deliver_all_refs:
  assumes "listening c"
  shows "map Some (emitted_refs (effects (deliver_all variant evs c))) =
     map Some (emitted_refs (effects c))
       @ map (\<lambda>ev. cache (deliver_all variant evs c)
                     (conversationID_of (group_bytes ev) (sender_of ev)))
           (filter is_message evs)"
  using assms
proof (induction evs arbitrary: c)
  case Nil
  then show ?case by simp
next
  case (Cons ev evs)
  have l: "listening (handle variant ev c)" using Cons.prems by (simp add: handle_listening)
  have d: "deliver variant ev c = handle variant ev c"
    using Cons.prems by (simp add: deliver_def)
  note IH = Cons.IH [OF l]
  show ?case
  proof (cases "is_message ev")
    case True
    from handle_message [OF True, of variant c] obtain pre r c1 c2 x where
      g: "get_or_create variant (conversationID_of (group_bytes ev) (sender_of ev)) c1 = (r, c2)"
      and p: "emitted_refs pre = []"
      and h: "cache (handle variant ev c) = cache c2"
      and e: "effects (handle variant ev c) = effects c @ pre @ [x]"
      and x: "emitted_conversation x = Some (JObj (ConvRef r))"
      by blast
    have "cache (handle variant ev c) (conversationID_of (group_bytes ev) (sender_of ev)) = Some r"
      using get_or_create_cached [OF g] h by simp
    then have fin: "cache (deliver_all variant evs (handle variant ev c))
        (conversationID_of (group_bytes ev) (sender_of ev)) = Some r"
      by (rule deliver_all_cache_mono)
    have "emitted_refs (effects (handle variant ev c)) = emitted_refs (effects c) @ [r]"
      using p x by (simp add: e emitted_refs_append)
    with IH fin True show ?thesis by (simp add: d)
  next
    case False
    from handle_error [OF False, of variant c] IH False show ?thesis by (simp add: d)
  qed
qed

lemma handle_heap:
  assumes "is_message ev"
  shows "heap (handle variant ev c) =
     (case cache c (conversationID_of (group_bytes ev) (sender_of ev)) of
        None \<Rightarrow> heap c @ [\<lparr>conv_id = conversationID_of (group_bytes ev) (sender_of ev),
                            conv_class = variant (conversationID_of (group_bytes ev) (sender_of ev))\<rparr>]
      | Some r \<Rightarrow> heap c)"
proof -
  let ?k = "conversationID_of (group_bytes ev) (sender_of ev)"
  from handle_message [OF assms, of variant c] obtain r c1 c2 where
    g: "get_or_create variant ?k c1 = (r, c2)"
    and c1: "cache c1 = cache c" "heap c1 = heap c"
    and h: "heap (handle variant ev c) = heap c2"
    by blast
  show ?thesis
  proof (cases "cache c ?k")
    case None
    with c1 have "cache c1 ?k = None" by simp
    from get_or_create_miss [OF this, of variant] g c1 h None show ?thesis by auto
  next
    case (Some r0)
    with c1 have "cache c1 ?k = Some r0" by simp
    from get_or_create_hit [OF this, of variant] g c1 h Some show ?thesis by auto
  qed
qed

lemma fresh_client_invariant:
  "Client_constructor s = Inr c \<Longrightarrow>
     heap c = [] \<and> emitted_refs (effects c) = [] \<and> cache c = Map.empty"
  by (auto simp: Client_constructor_def split: if_splits)

lemma connect_registry:
  "connect proxy c = (res, c0) \<Longrightarrow>
     cache c0 = cache c \<and> heap c0 = heap c
     \<and> emitted_refs (effects c0) = emitted_refs (effects c)"
  by (cases proxy) (auto simp: connect_def Let_def setInterval_def emitted_refs_append)

lemma connect_listening: "connect (Inr u) c = (res, c0) \<Longrightarrow> listening c0 \<and> timer_running c0"
  by (auto simp: connect_def Let_def setInterval_def timer_running_def)

lemma session_start:
  assumes "Client_constructor s = Inr c" and "connect (Inr u) c = (res, c0)"
  shows "registry_invariant variant c0" and "emitted_refs (effects c0) = []" and "listening c0"
proof -
  note f = fresh_client_invariant [OF assms(1)]
  note r = connect_registry [OF assms(2)]
  from f r show "registry_invariant variant c0" by (simp add: registry_invariant_def)
  from f r show "emitted_refs (effects c0) = []" by simp
  from connect_listening [OF assms(2)] show "listening c0" by simp
qed

lemma session_refs:
  assumes "Client_constructor s = Inr c" and "connect (Inr u) c = (res, c0)"
  shows "map Some (emitted_refs (effects (deliver_all variant evs c0))) =
     map (\<lambda>ev. cache (deliver_all variant evs c0)
                     (conversationID_of (group_bytes ev) (sender_of ev)))
           (filter is_message evs)"
  using deliver_all_refs [OF session_start(3) [OF assms], of variant evs]
    session_start(2) [OF assms] by simp

lemma get_or_create_idempotent:
  assumes "get_or_create variant k c = (r, c')"
  shows "get_or_create variant k c' = (r, c')"
  using get_or_create_cached [OF assms] by (rule get_or_create_hit)

section \<open>The claims\<close>

subsection \<open>The health check\<close>




text \<open>
  Claim C6. When the check finds a failure that is not the benign one, the teardown is, in
  this order: the interval is cleared, the bus is disconnected, the listeners are removed
  from the bus interface, and one \<open>disconnect\<close> event is emitted last (in debug mode a line
  is logged first). Afterwards the interval is off, the bus closed, the listeners gone.
\<close>

theorem teardown_order:
  "\<not> benign e \<Longrightarrow>
     effects (connection_check (Rejected e) c) =
       effects c @ (if debug (settings c) then [DebugLog DisconnectLine] else [])
         @ [ClearInterval, BusDisconnect, RemoveAllListeners, Emit EvDisconnect]
     \<and> \<not> timer_running (connection_check (Rejected e) c)
     \<and> \<not> bus_connected (connection_check (Rejected e) c)
     \<and> \<not> listening (connection_check (Rejected e) c)"
  by (simp add: connection_check_def effects_teardown flags_teardown)

theorem teardown_order_witness:
  "effects (connection_check (Rejected \<lparr>reply = None\<rparr>) example_session) =
     effects example_session @ [ClearInterval, BusDisconnect, RemoveAllListeners, Emit EvDisconnect]
   \<and> \<not> timer_running (connection_check (Rejected \<lparr>reply = None\<rparr>) example_session)
   \<and> \<not> bus_connected (connection_check (Rejected \<lparr>reply = None\<rparr>) example_session)
   \<and> \<not> listening (connection_check (Rejected \<lparr>reply = None\<rparr>) example_session)"
proof -
  have nb: "\<not> benign \<lparr>reply = None\<rparr>" by (simp add: benign_def)
  from teardown_order [OF nb, of example_session] show ?thesis
    by (simp add: example_session_state)
qed

subsection \<open>The settings\<close>

text \<open>
  Claim C4, as the constructor has it. Constructing the client and connecting fails with
  the constructor's \<open>TypeError\<close> if and only if the interval is not of type number (any
  number passes, positive or not), or the destination is not a string, or the scope is
  neither \<open>"system"\<close> nor \<open>"session"\<close>, or the account identifier is null or undefined, or
  it is a string with a leading \<open>+\<close>; and it fails so exactly when nothing at all was
  done on the transport.
\<close>

theorem configuration_error_iff:
  "(isl (fst (new_and_connect s proxy)) \<longleftrightarrow>
      typeof (dbus_get connectionCheckInterval s) \<noteq> ''number''
      \<or> typeof (dbus_get destination s) \<noteq> ''string''
      \<or> (dbus_get dbus_type s \<noteq> JStr ''system'' \<and> dbus_get dbus_type s \<noteq> JStr ''session'')
      \<or> phoneNumber s = JUndefined \<or> phoneNumber s = JNull
      \<or> (\<exists>n. phoneNumber s = JStr (CHR ''+'' # n)))
   \<and> (isl (fst (new_and_connect s proxy)) \<longleftrightarrow> snd (new_and_connect s proxy) = [])"
proof -
  have a: "isl (fst (new_and_connect s proxy)) \<longleftrightarrow> isl (Client_constructor s)"
    by (simp add: new_and_connect_def split: sum.splits prod.splits)
  have b: "isl (fst (new_and_connect s proxy)) \<longleftrightarrow> snd (new_and_connect s proxy) = []"
  proof (cases "Client_constructor s")
    case (Inl e)
    then show ?thesis by (simp add: new_and_connect_def)
  next
    case (Inr c)
    obtain r c' where rc: "connect proxy c = (r, c')" by (cases "connect proxy c")
    have "effects (snd (connect proxy c)) \<noteq> []" by (rule connect_effects_nonempty)
    with rc have "effects c' \<noteq> []" by simp
    with Inr rc show ?thesis by (simp add: new_and_connect_def)
  qed
  show ?thesis using a b constructor_throws_iff [of s] by simp
qed

text \<open>The interval \<open>"5000"\<close>, a string, is refused with no effect; the valid settings connect.\<close>

theorem configuration_error_iff_witness:
  "isl (fst (new_and_connect
        (example_settings\<lparr>dbus := Some \<lparr>connectionCheckInterval = JStr ''5000'',
                                        destination = JStr ''org.asamk.Signal'',
                                        dbus_type = JStr ''system''\<rparr>\<rparr>) (Inr ())))
   \<and> snd (new_and_connect
        (example_settings\<lparr>dbus := Some \<lparr>connectionCheckInterval = JStr ''5000'',
                                        destination = JStr ''org.asamk.Signal'',
                                        dbus_type = JStr ''system''\<rparr>\<rparr>) (Inr ())) = []
   \<and> \<not> isl (fst (new_and_connect example_settings (Inr ())))
   \<and> snd (new_and_connect example_settings (Inr ())) \<noteq> []"
proof -
  let ?s = "example_settings\<lparr>dbus := Some \<lparr>connectionCheckInterval = JStr ''5000'',
                                        destination = JStr ''org.asamk.Signal'',
                                        dbus_type = JStr ''system''\<rparr>\<rparr>"
  have bad: "typeof (dbus_get connectionCheckInterval ?s) \<noteq> ''number''"
    by (simp add: dbus_get_def)
  have good: "\<not> (typeof (dbus_get connectionCheckInterval example_settings) \<noteq> ''number''
      \<or> typeof (dbus_get destination example_settings) \<noteq> ''string''
      \<or> (dbus_get dbus_type example_settings \<noteq> JStr ''system''
          \<and> dbus_get dbus_type example_settings \<noteq> JStr ''session'')
      \<or> phoneNumber example_settings = JUndefined \<or> phoneNumber example_settings = JNull
      \<or> (\<exists>n. phoneNumber example_settings = JStr (CHR ''+'' # n)))"
    by (simp add: dbus_get_def example_settings_def)
  from configuration_error_iff [of ?s "Inr ()"] bad
    configuration_error_iff [of example_settings "Inr ()"] good
  show ?thesis by blast
qed

text \<open>
  The interval \<open>-1\<close> is a number and not a positive one: were every interval that is not
  a positive number refused, these settings would be. They are accepted.
\<close>

theorem nonpositive_interval_counterexample:
  "\<not> (isl (fst (new_and_connect
          (example_settings\<lparr>dbus := Some \<lparr>connectionCheckInterval = JNum (- 1),
                                          destination = JStr ''org.asamk.Signal'',
                                          dbus_type = JStr ''system''\<rparr>\<rparr>) (Inr ())))
       \<longleftrightarrow>
         \<not> (\<exists>n. JNum (- 1) = JNum n \<and> 0 < n)
         \<or> \<not> (\<exists>d. JStr ''org.asamk.Signal'' = JStr d)
         \<or> (JStr ''system'' \<noteq> JStr ''system'' \<and> JStr ''system'' \<noteq> JStr ''session'')
         \<or> phoneNumber example_settings = JUndefined
         \<or> phoneNumber example_settings = JNull
         \<or> (\<exists>n. phoneNumber example_settings = JStr (CHR ''+'' # n)))"
  by (simp add: new_and_connect_def Client_constructor_def dbus_get_def example_settings_def
      split: prod.splits)

text \<open>
  Claim C9. The check for a leading \<open>+\<close> is made on strings only: an account identifier
  that is neither null nor undefined nor a string never raises that error (nor the one for
  a missing identifier), and with the three bus settings valid the client is constructed.
\<close>

theorem plus_check_strings_only:
  assumes "phoneNumber s \<noteq> JUndefined" "phoneNumber s \<noteq> JNull"
    and "typeof (phoneNumber s) \<noteq> ''string''"
  shows "Client_constructor s \<noteq> Inl PlusPhoneNumber
    \<and> Client_constructor s \<noteq> Inl (BadPhoneNumber (phoneNumber s))
    \<and> (typeof (dbus_get connectionCheckInterval s) = ''number'' \<longrightarrow>
        typeof (dbus_get destination s) = ''string'' \<longrightarrow>
        dbus_get dbus_type s = JStr ''system'' \<or> dbus_get dbus_type s = JStr ''session'' \<longrightarrow>
        \<not> isl (Client_constructor s))"
  using assms by (auto simp: Client_constructor_def eq_null_iff)

theorem plus_check_strings_only_witness:
  "Client_constructor (example_settings\<lparr>phoneNumber := JNum 15551234567\<rparr>) \<noteq> Inl PlusPhoneNumber
   \<and> \<not> isl (Client_constructor (example_settings\<lparr>phoneNumber := JNum 15551234567\<rparr>))"
proof -
  let ?s = "example_settings\<lparr>phoneNumber := JNum 15551234567\<rparr>"
  have 1: "phoneNumber ?s \<noteq> JUndefined" "phoneNumber ?s \<noteq> JNull"
    "typeof (phoneNumber ?s) \<noteq> ''string''"
    by simp_all
  have 2: "typeof (dbus_get connectionCheckInterval ?s) = ''number''"
    "typeof (dbus_get destination ?s) = ''string''"
    "dbus_get dbus_type ?s = JStr ''system'' \<or> dbus_get dbus_type ?s = JStr ''session''"
    by (simp_all add: dbus_get_def example_settings_def)
  from plus_check_strings_only [OF 1] 2 show ?thesis by blast
qed

subsection \<open>MessageV2\<close>

text \<open>
  Claim C10. A \<open>MessageV2\<close> made from data whose \<open>extras\<close> is absent or falsy has the
  empty list as its \<open>extras\<close>, and one whose \<open>message\<close> is absent or falsy has the empty
  string as its \<open>message\<close> (a truthy value is kept as it is); \<open>client\<close>, \<open>timestamp\<close>,
  \<open>sender\<close> and \<open>conversation\<close> come back from the getters as they were given. Made
  without data, it has the empty list and the empty string.
\<close>

theorem MessageV2_defaults:
  "MessageV2_extras (MessageV2_constructor (Some d)) =
     (if truthy (data_extras d) then data_extras d else JArr [])
   \<and> MessageV2_message (MessageV2_constructor (Some d)) =
     (if truthy (data_message d) then data_message d else JStr [])
   \<and> MessageV2_client (MessageV2_constructor (Some d)) = data_client d
   \<and> MessageV2_timestamp (MessageV2_constructor (Some d)) = data_timestamp d
   \<and> MessageV2_sender (MessageV2_constructor (Some d)) = data_sender d
   \<and> MessageV2_conversation (MessageV2_constructor (Some d)) = data_conversation d
   \<and> MessageV2_extras (MessageV2_constructor None) = JArr []
   \<and> MessageV2_message (MessageV2_constructor None) = JStr []"
  by (simp add: MessageV2_constructor_def MessageV2_extras_def MessageV2_message_def
      MessageV2_client_def MessageV2_timestamp_def MessageV2_sender_def
      MessageV2_conversation_def js_or_def empty_data_def)

theorem MessageV2_defaults_witness:
  "MessageV2_extras (MessageV2_constructor (Some
       (empty_data\<lparr>data_sender := JStr ''+15551234567'', data_extras := JNull\<rparr>))) = JArr []
   \<and> MessageV2_message (MessageV2_constructor (Some
       (empty_data\<lparr>data_sender := JStr ''+15551234567'', data_extras := JNull\<rparr>))) = JStr []
   \<and> MessageV2_sender (MessageV2_constructor (Some
       (empty_data\<lparr>data_sender := JStr ''+15551234567'', data_extras := JNull\<rparr>)))
       = JStr ''+15551234567''"
  using MessageV2_defaults [of "empty_data\<lparr>data_sender := JStr ''+15551234567'', data_extras := JNull\<rparr>"]
  by (simp add: empty_data_def)

subsection \<open>The send operations\<close>

text \<open>
  Claim C5, as the three methods have it. Each makes one call on the daemon's interface.
  \<open>sendMessage\<close> and \<open>resetSession\<close> address it with the conversation's identifier in a
  one-element list; \<open>sendTyping\<close> passes the identifier itself, a string, followed by the
  stop flag.
\<close>

theorem send_operations_recipient:
  "fst (sendMessage this content attachments bus1) =
      [Call ''sendMessage''
         [DStr content, DArr (map DStr (case attachments of None \<Rightarrow> [] | Some a \<Rightarrow> a)),
          DArr [DStr (conv_id this)]]]
   \<and> fst (resetSession this bus2) = [Call ''sendEndSessionMessage'' [DArr [DStr (conv_id this)]]]
   \<and> fst (sendTyping this stop bus3) =
      [Call ''sendTyping''
         [DStr (conv_id this), DBool (case stop of None \<Rightarrow> False | Some b \<Rightarrow> b)]]
   \<and> map recipient_argument (fst (sendMessage this content attachments bus1))
        = [Some (DArr [DStr (conv_id this)])]
   \<and> map recipient_argument (fst (resetSession this bus2))
        = [Some (DArr [DStr (conv_id this)])]
   \<and> map recipient_argument (fst (sendTyping this stop bus3)) = [Some (DStr (conv_id this))]"
  by (simp add: sendMessage_def resetSession_def sendTyping_def Let_def)

theorem send_operations_recipient_witness:
  "map recipient_argument
     (fst (sendMessage \<lparr>conv_id = ''+15551234567'', conv_class = UserConversation\<rparr>
             ''hello'' None (\<lambda>call. Inr 1700000000000)))
     = [Some (DArr [DStr ''+15551234567''])]
   \<and> map recipient_argument
     (fst (resetSession \<lparr>conv_id = ''+15551234567'', conv_class = UserConversation\<rparr>
             (\<lambda>call. Inr ())))
     = [Some (DArr [DStr ''+15551234567''])]
   \<and> map recipient_argument
     (fst (sendTyping \<lparr>conv_id = ''+15551234567'', conv_class = UserConversation\<rparr>
             (Some True) (\<lambda>call. Inr ())))
     = [Some (DStr ''+15551234567'')]"
  using send_operations_recipient [of "\<lparr>conv_id = ''+15551234567'', conv_class = UserConversation\<rparr>"
      "''hello''" None "\<lambda>call. Inr 1700000000000" "\<lambda>call. Inr ()" "Some True" "\<lambda>call. Inr ()"]
  by simp

text \<open>The recipient that \<open>sendTyping\<close> passes for \<open>+15551234567\<close> is not the one-element list.\<close>

theorem sendTyping_recipient_counterexample:
  "recipient_argument
     (hd (fst (sendTyping \<lparr>conv_id = ''+15551234567'', conv_class = UserConversation\<rparr>
                 None (\<lambda>call. Inr ()))))
   \<noteq> Some (DArr [DStr ''+15551234567''])"
  by (simp add: sendTyping_def Let_def)

text \<open>
  Claim C7. \<open>sendMessage\<close> on a user conversation makes exactly one call,
  \<open>sendMessage\<close> with the content, the attachments and the one-element list of the
  conversation's identifier. When the daemon answers with a timestamp, the method returns
  \<open>Number\<close> of it: an integer of magnitude at most \<open>2 ^ 63\<close>, and the timestamp itself
  whenever that is below \<open>2 ^ 53\<close> in magnitude. When the transport fails, so does the
  method, with the same error.
\<close>

theorem sendMessage_one_call:
  assumes "conv_class this = UserConversation"
  shows "fst (sendMessage this content (Some attachments) busInterface) =
      [Call ''sendMessage''
         [DStr content, DArr (map DStr attachments), DArr [DStr (conv_id this)]]]
   \<and> (\<forall>timestamp.
         busInterface (Call ''sendMessage''
           [DStr content, DArr (map DStr attachments), DArr [DStr (conv_id this)]])
           = Inr timestamp \<longrightarrow>
         snd (sendMessage this content (Some attachments) busInterface)
           = Inr (Number_of_BigInt timestamp)
         \<and> \<bar>Number_of_BigInt timestamp\<bar> \<le> 2 ^ 63
         \<and> (\<bar>sint timestamp\<bar> < 2 ^ 53 \<longrightarrow> Number_of_BigInt timestamp = sint timestamp))
   \<and> (\<forall>e.
         busInterface (Call ''sendMessage''
           [DStr content, DArr (map DStr attachments), DArr [DStr (conv_id this)]])
           = Inl e \<longrightarrow>
         snd (sendMessage this content (Some attachments) busInterface) = Inl e)"
proof -
  have n: "\<bar>Number_of_BigInt timestamp\<bar> \<le> 2 ^ 63
      \<and> (\<bar>sint timestamp\<bar> < 2 ^ 53 \<longrightarrow> Number_of_BigInt timestamp = sint timestamp)"
    for timestamp
    using Number_of_BigInt_bound [of timestamp] Number_of_BigInt_exact [of timestamp] by blast
  show ?thesis
    using n by (simp add: sendMessage_def Let_def)
qed

theorem sendMessage_one_call_witness:
  "fst (sendMessage \<lparr>conv_id = ''+15551234567'', conv_class = UserConversation\<rparr>
          ''hello'' (Some []) (\<lambda>call. Inr 1700000000000))
     = [Call ''sendMessage'' [DStr ''hello'', DArr [], DArr [DStr ''+15551234567'']]]
   \<and> snd (sendMessage \<lparr>conv_id = ''+15551234567'', conv_class = UserConversation\<rparr>
          ''hello'' (Some []) (\<lambda>call. Inr 1700000000000))
     = Inr 1700000000000"
proof -
  let ?this = "\<lparr>conv_id = ''+15551234567'', conv_class = UserConversation\<rparr>"
  have u: "conv_class ?this = UserConversation" by simp
  have s: "\<bar>sint (1700000000000 :: int64)\<bar> < 2 ^ 53" by simp
  from sendMessage_one_call [OF u, of "''hello''" "[]" "\<lambda>call. Inr 1700000000000"] s
  show ?thesis by simp
qed

subsection \<open>Inbound messages\<close>

text \<open>
  Claim C8. For a message signal of either kind, the last thing its handler does is emit
  a message whose timestamp is \<open>Number\<close> of the raw 64-bit timestamp: an integer of
  magnitude at most \<open>2 ^ 63\<close>, equal to the raw timestamp whenever that is below
  \<open>2 ^ 53\<close> in magnitude.
\<close>

theorem emitted_timestamp_is_Number:
  assumes "raw_timestamp ev = Some t"
  shows "emitted_timestamp (last (effects (handle variant ev c))) = Some (JNum (Number_of_BigInt t))
    \<and> \<bar>Number_of_BigInt t\<bar> \<le> 2 ^ 63
    \<and> (\<bar>sint t\<bar> < 2 ^ 53 \<longrightarrow> Number_of_BigInt t = sint t)"
proof -
  from assms have "is_message ev" by (cases ev) auto
  from handle_message [OF this, of variant c] obtain pre x where
    "effects (handle variant ev c) = effects c @ pre @ [x]"
    "emitted_timestamp x = map_option (\<lambda>t. JNum (Number_of_BigInt t)) (raw_timestamp ev)"
    by blast
  with assms have "emitted_timestamp (last (effects (handle variant ev c)))
      = Some (JNum (Number_of_BigInt t))"
    by simp
  with Number_of_BigInt_bound [of t] Number_of_BigInt_exact [of t] show ?thesis by blast
qed

theorem emitted_timestamp_is_Number_witness:
  "emitted_timestamp (last (effects (handle example_variant
      (MessageReceived 1700000000000 ''+15551234567'' [] ''hello'' []) example_session)))
     = Some (JNum 1700000000000)
   \<and> emitted_timestamp (last (effects (handle example_variant
      (MessageReceivedV2 1700000000000 ''+15551234567'' [] ''hello'' []) example_session)))
     = Some (JNum 1700000000000)"
proof -
  have s: "\<bar>sint (1700000000000 :: int64)\<bar> < 2 ^ 53" by simp
  have 1: "raw_timestamp (MessageReceived 1700000000000 ''+15551234567'' [] ''hello'' [])
      = Some 1700000000000" by simp
  have 2: "raw_timestamp (MessageReceivedV2 1700000000000 ''+15551234567'' [] ''hello'' [])
      = Some 1700000000000" by simp
  from emitted_timestamp_is_Number [OF 1, of example_variant example_session]
    emitted_timestamp_is_Number [OF 2, of example_variant example_session] s
  show ?thesis by simp
qed

text \<open>
  Claim C2, as the handlers have it. In a session (a client constructed and connected,
  then any signals delivered), the conversations carried by the emitted messages have, one
  by one, the identifier of their signal: the base64 text of the group bytes when there
  are any, the sender otherwise. Every conversation of the store has the class that the
  registry's factory gives its identifier. And a handler, at any state, adds to the store
  exactly when the cache has nothing under the identifier: the conversation with this
  identifier and the class the factory gives it.
\<close>

theorem conversation_identifier_resolution:
  assumes "Client_constructor s = Inr c" and "connect (Inr u) c = (res, c0)"
  shows "map (\<lambda>r. conv_id (heap (deliver_all variant evs c0) ! r))
             (emitted_refs (effects (deliver_all variant evs c0)))
         = map (\<lambda>ev. if group_bytes ev \<noteq> [] then base64 (group_bytes ev) else sender_of ev)
             (filter is_message evs)
     \<and> (\<forall>conv \<in> set (heap (deliver_all variant evs c0)).
           conv_class conv = variant (conv_id conv))
     \<and> (is_message ev \<longrightarrow>
          heap (handle variant ev c1) =
            (case cache c1 (if group_bytes ev \<noteq> [] then base64 (group_bytes ev)
                            else sender_of ev) of
               None \<Rightarrow>
                 heap c1 @
                   [\<lparr>conv_id = (if group_bytes ev \<noteq> [] then base64 (group_bytes ev)
                                else sender_of ev),
                     conv_class = variant (if group_bytes ev \<noteq> [] then base64 (group_bytes ev)
                                           else sender_of ev)\<rparr>]
             | Some r \<Rightarrow> heap c1))"
proof -
  let ?fin = "deliver_all variant evs c0"
  let ?msgs = "filter is_message evs"
  let ?refs = "emitted_refs (effects ?fin)"
  let ?cid = "\<lambda>ev. conversationID_of (group_bytes ev) (sender_of ev)"
  have m: "map Some ?refs = map (\<lambda>ev. cache ?fin (?cid ev)) ?msgs"
    using assms by (rule session_refs)
  then have len: "length ?refs = length ?msgs"
    by (metis length_map)
  have inv: "registry_invariant variant ?fin"
    using session_start(1) [OF assms] by (rule deliver_all_invariant)
  have nth: "conv_id (heap ?fin ! (?refs ! i)) = ?cid (?msgs ! i)" if "i < length ?msgs" for i
  proof -
    have "map Some ?refs ! i = map (\<lambda>ev. cache ?fin (?cid ev)) ?msgs ! i" using m by simp
    with that len have "cache ?fin (?cid (?msgs ! i)) = Some (?refs ! i)" by simp
    with inv show ?thesis by (simp add: registry_invariant_def)
  qed
  have cid: "?cid ev = (if group_bytes ev \<noteq> [] then base64 (group_bytes ev) else sender_of ev)"
    for ev by (simp add: conversationID_of_def)
  have 1: "map (\<lambda>r. conv_id (heap ?fin ! r)) ?refs = map ?cid ?msgs"
    using len nth by (intro nth_equalityI) simp_all
  have 2: "\<forall>conv \<in> set (heap ?fin). conv_class conv = variant (conv_id conv)"
    using inv by (simp add: registry_invariant_def)
  have 3: "heap (handle variant ev c1) =
     (case cache c1 (?cid ev) of
        None \<Rightarrow> heap c1 @ [\<lparr>conv_id = ?cid ev, conv_class = variant (?cid ev)\<rparr>]
      | Some r \<Rightarrow> heap c1)" if "is_message ev"
    using that by (rule handle_heap)
  from 1 2 3 show ?thesis unfolding cid by blast
qed

text \<open>
  The three example signals: the two of the group \<open>TWE=\<close> and the direct one carry
  conversations with these identifiers.
\<close>

theorem conversation_identifier_resolution_witness:
  "map (\<lambda>r. conv_id (heap (deliver_all example_variant example_events example_session) ! r))
       (emitted_refs (effects (deliver_all example_variant example_events example_session)))
     = [''TWE='', ''TWE='', ''+15550000000'']"
proof -
  have "map (\<lambda>ev. if group_bytes ev \<noteq> [] then base64 (group_bytes ev) else sender_of ev)
             (filter is_message example_events) = [''TWE='', ''TWE='', ''+15550000000'']"
    by (simp add: example_events_def base64_char_def base64_alphabet_def)
  with conversation_identifier_resolution
    [OF example_client_constructed example_session_connected,
      of example_variant example_events]
  show ?thesis by simp
qed

text \<open>
  A direct message from \<open>+15551234567\<close> and a message of the group whose nine bytes read
  \<open>+15551234567\<close> in base64 resolve to the same identifier, both on an empty cache. The
  factory is given that identifier and builds one class for it: under no factory is the
  first conversation a user conversation and the second a group conversation.
\<close>

theorem variant_by_group_bytes_counterexample:
  "\<not> (\<exists>variant.
        conv_class (last (heap (handle variant
          (MessageReceivedV2 1700000000000 ''+15551234567'' [] ''hi'' []) example_session)))
          = UserConversation
      \<and> conv_class (last (heap (handle variant
          (MessageReceivedV2 1700000000000 ''+15550000000''
             [0xFB, 0x5E, 0x79, 0xE7, 0x5D, 0xB7, 0xE3, 0x9E, 0xBB] ''hi'' []) example_session)))
          = GroupConversation)"
proof -
  have direct: "conversationID_of [] ''+15551234567'' = ''+15551234567''"
    by (simp add: conversationID_of_def)
  have group: "conversationID_of [0xFB, 0x5E, 0x79, 0xE7, 0x5D, 0xB7, 0xE3, 0x9E, 0xBB]
      ''+15550000000'' = ''+15551234567''"
    by (simp add: conversationID_of_def base64_char_def base64_alphabet_def)
  have h: "heap (on_MessageReceivedV2 variant t s g m x example_session)
      = [\<lparr>conv_id = conversationID_of g s, conv_class = variant (conversationID_of g s)\<rparr>]"
    for variant t s g m x
    by (simp add: on_MessageReceivedV2_def Let_def get_or_create_miss example_session_state)
  show ?thesis
    by (simp add: h direct group)
qed

text \<open>
  Claim C3. In a session, the messages emitted for the delivered signals carry one
  conversation reference each, and two signals with the same conversation identifier
  carry the same reference; no two conversations of the store have the same identifier,
  so at most one was ever made for an identifier; and the lookup is idempotent: made
  again with the same identifier on the state it left, it gives the same reference and
  changes nothing.
\<close>

theorem same_identifier_same_instance:
  assumes "Client_constructor s = Inr c" and "connect (Inr u) c = (res, c0)"
  shows "length (emitted_refs (effects (deliver_all variant evs c0)))
           = length (filter is_message evs)
     \<and> (\<forall>i j. i < length (filter is_message evs) \<and> j < length (filter is_message evs)
            \<and> conversationID_of (group_bytes (filter is_message evs ! i))
                 (sender_of (filter is_message evs ! i))
              = conversationID_of (group_bytes (filter is_message evs ! j))
                 (sender_of (filter is_message evs ! j))
          \<longrightarrow> emitted_refs (effects (deliver_all variant evs c0)) ! i
              = emitted_refs (effects (deliver_all variant evs c0)) ! j)
     \<and> distinct (map conv_id (heap (deliver_all variant evs c0)))
     \<and> (\<forall>k c1 r c2. get_or_create variant k c1 = (r, c2) \<longrightarrow>
            get_or_create variant k c2 = (r, c2))"
proof -
  let ?fin = "deliver_all variant evs c0"
  let ?msgs = "filter is_message evs"
  let ?refs = "emitted_refs (effects ?fin)"
  let ?cid = "\<lambda>ev. conversationID_of (group_bytes ev) (sender_of ev)"
  have m: "map Some ?refs = map (\<lambda>ev. cache ?fin (?cid ev)) ?msgs"
    using assms by (rule session_refs)
  then have len: "length ?refs = length ?msgs"
    by (metis length_map)
  have nth: "Some (?refs ! i) = cache ?fin (?cid (?msgs ! i))" if "i < length ?msgs" for i
  proof -
    have "map Some ?refs ! i = map (\<lambda>ev. cache ?fin (?cid ev)) ?msgs ! i" using m by simp
    with that len show ?thesis by simp
  qed
  have same: "?refs ! i = ?refs ! j"
    if "i < length ?msgs" "j < length ?msgs" "?cid (?msgs ! i) = ?cid (?msgs ! j)" for i j
  proof -
    have "Some (?refs ! i) = Some (?refs ! j)" using nth [OF that(1)] nth [OF that(2)] that(3) by simp
    then show ?thesis by simp
  qed
  have "registry_invariant variant ?fin"
    using session_start(1) [OF assms] by (rule deliver_all_invariant)
  then have dist: "distinct (map conv_id (heap ?fin))" by (simp add: registry_invariant_def)
  show ?thesis using len same dist get_or_create_idempotent by blast
qed

text \<open>The two example signals of the group carry the same reference.\<close>

theorem same_identifier_same_instance_witness:
  "length (emitted_refs (effects (deliver_all example_variant example_events example_session)))
     = 3
   \<and> emitted_refs (effects (deliver_all example_variant example_events example_session)) ! 0
     = emitted_refs (effects (deliver_all example_variant example_events example_session)) ! 1
   \<and> distinct (map conv_id (heap (deliver_all example_variant example_events example_session)))"
proof -
  have n: "length (filter is_message example_events) = 3"
    by (simp add: example_events_def)
  have k: "conversationID_of (group_bytes (filter is_message example_events ! 0))
             (sender_of (filter is_message example_events ! 0))
         = conversationID_of (group_bytes (filter is_message example_events ! 1))
             (sender_of (filter is_message example_events ! 1))"
    by (simp add: example_events_def conversationID_of_def)
  from same_identifier_same_instance
    [OF example_client_constructed example_session_connected,
      of example_variant example_events]
    n k
  show ?thesis by simp
qed

end
